theory Spec2Isabelle
  imports Main "HOL-Library.Word" "HOL-Library.Sublist"
begin

unbundle bit_operations_syntax

section \<open>Upload validation: \<^verbatim>\<open>app/lib/storage/validation.ts\<close>\<close>

text \<open>
  A shallow embedding of the upload validator. A Node \<^verbatim>\<open>Buffer\<close> is a list of bytes, a
  JavaScript number that holds a byte count is an \<^typ>\<open>int\<close> (file sizes are integers far
  below \<open>2^53\<close>, where the arithmetic of doubles is exact), an optional property is an
  \<^typ>\<open>'a option\<close> with \<open>None\<close> for \<^verbatim>\<open>undefined\<close>, and \<^verbatim>\<open>await file.arrayBuffer()\<close>, the only
  effect of the module, is recorded in a list of the files that were read.
\<close>

subsection \<open>Constants and the signature table\<close>

type_synonym byte = "8 word"

datatype AllowedMimeType = ImagePng | ImageJpeg | ImageGif | ImageWebp

text \<open>The string each member of the union type stands for.\<close>

fun mime_string :: "AllowedMimeType \<Rightarrow> string" where
  "mime_string ImagePng = ''image/png''"
| "mime_string ImageJpeg = ''image/jpeg''"
| "mime_string ImageGif = ''image/gif''"
| "mime_string ImageWebp = ''image/webp''"

definition ALLOWED_MIME_TYPES :: "AllowedMimeType list" where
  "ALLOWED_MIME_TYPES = [ImagePng, ImageJpeg, ImageGif, ImageWebp]"

definition MAX_FILE_SIZE :: int where
  "MAX_FILE_SIZE = 5 * 1024 * 1024"

definition MAX_TOTAL_SIZE :: int where
  "MAX_TOTAL_SIZE = 20 * 1024 * 1024"

text \<open>
  \<^verbatim>\<open>MAGIC_BYTES\<close> is an object literal with four string keys; \<^verbatim>\<open>Object.entries\<close> lists
  them in the order they were written, so the table is an association list in that order.
\<close>

definition MAGIC_BYTES :: "(AllowedMimeType \<times> byte list list) list" where
  "MAGIC_BYTES =
    [(ImagePng, [[0x89, 0x50, 0x4e, 0x47, 0x0d, 0x0a, 0x1a, 0x0a]]),
     (ImageJpeg,
       [[0xff, 0xd8, 0xff, 0xe0],
        [0xff, 0xd8, 0xff, 0xe1],
        [0xff, 0xd8, 0xff, 0xe2],
        [0xff, 0xd8, 0xff, 0xdb],
        [0xff, 0xd8, 0xff, 0xee]]),
     (ImageGif,
       [[0x47, 0x49, 0x46, 0x38, 0x37, 0x61],
        [0x47, 0x49, 0x46, 0x38, 0x39, 0x61]]),
     (ImageWebp, [[0x52, 0x49, 0x46, 0x46]])]"

subsection \<open>Buffer operations\<close>

text \<open>\<^verbatim>\<open>buffer[index]\<close>: the byte, or \<^verbatim>\<open>undefined\<close> past the end.\<close>

definition buffer_index :: "byte list \<Rightarrow> nat \<Rightarrow> byte option" where
  "buffer_index buffer index =
    (if index < length buffer then Some (buffer ! index) else None)"

text \<open>\<^verbatim>\<open>signature.every((byte, index) => buffer[index] === byte)\<close>, the index counted up from
  its first argument.\<close>

fun signature_every :: "nat \<Rightarrow> byte list \<Rightarrow> byte list \<Rightarrow> bool" where
  "signature_every index [] buffer = True"
| "signature_every index (byte # signature) buffer =
    (buffer_index buffer index = Some byte \<and> signature_every (Suc index) signature buffer)"

text \<open>\<^verbatim>\<open>buffer.slice(start, stop)\<close> for indices that are not negative: both are clamped to
  the length.\<close>

definition slice :: "byte list \<Rightarrow> nat \<Rightarrow> nat \<Rightarrow> byte list" where
  "slice buffer start stop = drop start (take stop buffer)"

text \<open>
  \<^verbatim>\<open>buf.toString("ascii")\<close>. Node documents the decoder of this encoding: it unsets the
  highest bit of each byte and then decodes the byte as \<^verbatim>\<open>latin1\<close>, so the bytes
  \<open>0x57\<close> and \<open>0xD7\<close> both decode to the letter W.
\<close>

definition toString_ascii :: "byte list \<Rightarrow> string" where
  "toString_ascii buf = map (\<lambda>b. char_of (unat (b AND 0x7F))) buf"

subsection \<open>\<^verbatim>\<open>detectMimeType\<close>\<close>

text \<open>
  The inner loop over the signatures of one kind. \<open>Some\<close> is a \<^verbatim>\<open>return\<close> out of both
  loops; \<open>None\<close> means the loop ran to its end and the outer loop goes on. After a WebP
  signature has matched, the source reaches \<^verbatim>\<open>continue\<close> whenever the marker test fails.
\<close>

fun detect_signatures :: "AllowedMimeType \<Rightarrow> byte list \<Rightarrow> byte list list \<Rightarrow> AllowedMimeType option" where
  "detect_signatures mimeType buffer [] = None"
| "detect_signatures mimeType buffer (signature # signatures) =
    (if length buffer \<ge> length signature then
       (if signature_every 0 signature buffer then
          (if mimeType = ImageWebp then
             (if length buffer \<ge> 12 then
                (let webpMarker = toString_ascii (slice buffer 8 12)
                 in if webpMarker = ''WEBP'' then Some mimeType
                    else detect_signatures mimeType buffer signatures)
              else detect_signatures mimeType buffer signatures)
           else Some mimeType)
        else detect_signatures mimeType buffer signatures)
     else detect_signatures mimeType buffer signatures)"

fun detect_entries :: "byte list \<Rightarrow> (AllowedMimeType \<times> byte list list) list \<Rightarrow> AllowedMimeType option" where
  "detect_entries buffer [] = None"
| "detect_entries buffer ((mimeType, signatures) # entries) =
    (case detect_signatures mimeType buffer signatures of
       Some found \<Rightarrow> Some found
     | None \<Rightarrow> detect_entries buffer entries)"

definition detectMimeType :: "byte list \<Rightarrow> AllowedMimeType option" where
  "detectMimeType buffer = detect_entries buffer MAGIC_BYTES"

definition isAllowedMimeType :: "string \<Rightarrow> bool" where
  "isAllowedMimeType mimeType = (mimeType \<in> set (map mime_string ALLOWED_MIME_TYPES))"

subsection \<open>Size checks\<close>

definition validateFileSize :: "int \<Rightarrow> bool" where
  "validateFileSize size' = (size' > 0 \<and> size' \<le> MAX_FILE_SIZE)"

definition validateTotalSize :: "int \<Rightarrow> bool" where
  "validateTotalSize totalSize = (totalSize \<le> MAX_TOTAL_SIZE)"

subsection \<open>Files and results\<close>

text \<open>
  What the validator uses of a DOM \<^verbatim>\<open>File\<close>: its name, its declared media type (never
  read by the module), its declared size and the bytes \<^verbatim>\<open>arrayBuffer()\<close> resolves to.
  The size is a field of its own, so nothing below assumes it equals the number of bytes.
\<close>

record File =
  name :: string
  type_f :: string
  size_f :: int
  arrayBuffer :: "byte list"

record FileValidationResult =
  valid :: bool
  error :: "string option"
  mimeType :: "AllowedMimeType option"

text \<open>
  The result of \<^verbatim>\<open>validateFiles\<close> has one more optional property. An entry
  \<^verbatim>\<open>{ file, mimeType: result.mimeType! }\<close> is a pair; the \<^verbatim>\<open>!\<close> is erased when the
  program is compiled, so the second component is whatever \<^verbatim>\<open>result.mimeType\<close> holds.
\<close>

record FilesValidationResult = FileValidationResult +
  validatedFiles :: "(File \<times> AllowedMimeType option) list option"

definition size_exceeded_message :: "File \<Rightarrow> string" where
  \<open>size_exceeded_message file = ''File "'' @ name file @ ''" exceeds maximum size of 5MB''\<close>

definition not_image_message :: "File \<Rightarrow> string" where
  \<open>not_image_message file =
    ''File "'' @ name file @ ''" is not a valid image (PNG, JPG, GIF, or WebP)''\<close>

definition total_size_message :: string where
  "total_size_message = ''Total file size exceeds 20MB limit''"

subsection \<open>\<^verbatim>\<open>validateFile\<close> and \<^verbatim>\<open>validateFiles\<close>\<close>

text \<open>
  Each validator returns its result together with the files whose \<^verbatim>\<open>arrayBuffer()\<close> it
  awaited, in the order of the calls.
\<close>

definition validateFile :: "File \<Rightarrow> FileValidationResult \<times> File list" where
  "validateFile file =
    (if \<not> validateFileSize (size_f file) then
       (\<lparr>valid = False, error = Some (size_exceeded_message file), mimeType = None\<rparr>, [])
     else
       (let buffer = arrayBuffer file;
            detectedMimeType = detectMimeType buffer
        in case detectedMimeType of
             None \<Rightarrow>
               (\<lparr>valid = False, error = Some (not_image_message file), mimeType = None\<rparr>,
                [file])
           | Some m \<Rightarrow>
               (\<lparr>valid = True, error = None, mimeType = Some m\<rparr>, [file])))"

text \<open>\<^verbatim>\<open>return result\<close> inside \<^verbatim>\<open>validateFiles\<close>: the same object, seen at the wider type.\<close>

definition as_files_result :: "FileValidationResult \<Rightarrow> FilesValidationResult" where
  "as_files_result result =
    \<lparr>valid = valid result, error = error result, mimeType = mimeType result,
     validatedFiles = None\<rparr>"

text \<open>The \<^verbatim>\<open>for (const file of files)\<close> loop, with the array it pushes to and the files
  read so far.\<close>

fun validate_each ::
  "File list \<Rightarrow> (File \<times> AllowedMimeType option) list \<Rightarrow> File list
    \<Rightarrow> FilesValidationResult \<times> File list" where
  "validate_each [] validated reads =
    (\<lparr>valid = True, error = None, mimeType = None, validatedFiles = Some validated\<rparr>, reads)"
| "validate_each (file # files) validated reads =
    (case validateFile file of
       (result, read) \<Rightarrow>
         (if \<not> valid result then (as_files_result result, reads @ read)
          else validate_each files (validated @ [(file, mimeType result)]) (reads @ read)))"

definition validateFiles :: "File list \<Rightarrow> FilesValidationResult \<times> File list" where
  "validateFiles files =
    (if length files = 0 then
       (\<lparr>valid = True, error = None, mimeType = None, validatedFiles = Some []\<rparr>, [])
     else
       (let totalSize = foldl (\<lambda>sum file. sum + size_f file) 0 files
        in if \<not> validateTotalSize totalSize then
             (\<lparr>valid = False, error = Some total_size_message, mimeType = None,
               validatedFiles = None\<rparr>, [])
           else validate_each files [] []))"

section \<open>Vocabulary of the statements\<close>

text \<open>\<^verbatim>\<open>MAGIC_BYTES[kind]\<close>: the signatures the table lists for a kind.\<close>

definition signatures_of :: "AllowedMimeType \<Rightarrow> byte list list" where
  "signatures_of kind =
    (case map_of MAGIC_BYTES kind of Some signatures \<Rightarrow> signatures | None \<Rightarrow> [])"

text \<open>
  The WebP marker test as the code performs it, on bytes instead of characters: the buffer
  has at least 12 bytes, and bytes 8 to 11 with their highest bit cleared are the ASCII
  codes of W, E, B, P.
\<close>

definition webp_marker :: "byte list \<Rightarrow> bool" where
  "webp_marker buffer \<longleftrightarrow>
     length buffer \<ge> 12
     \<and> map (\<lambda>b. b AND 0x7F) (slice buffer 8 12) = [0x57, 0x45, 0x42, 0x50]"

definition matches_kind :: "byte list \<Rightarrow> AllowedMimeType \<Rightarrow> bool" where
  "matches_kind buffer kind \<longleftrightarrow>
     (\<exists>signature \<in> set (signatures_of kind). prefix signature buffer)
     \<and> (kind = ImageWebp \<longrightarrow> webp_marker buffer)"

text \<open>All signatures of one kind start with the same byte, and no two kinds share it.\<close>

fun first_byte :: "AllowedMimeType \<Rightarrow> byte" where
  "first_byte ImagePng = 0x89"
| "first_byte ImageJpeg = 0xff"
| "first_byte ImageGif = 0x47"
| "first_byte ImageWebp = 0x52"

subsection \<open>Sample inputs\<close>

definition big_file :: File where
  "big_file =
    \<lparr>name = ''big.png'', type_f = ''image/png'', size_f = 6291456, arrayBuffer = []\<rparr>"

definition png_file :: File where
  "png_file =
    \<lparr>name = ''a.png'', type_f = ''text/plain'', size_f = 100,
     arrayBuffer = [0x89, 0x50, 0x4e, 0x47, 0x0d, 0x0a, 0x1a, 0x0a, 0x00, 0x01, 0x02]\<rparr>"

definition gif_file :: File where
  "gif_file =
    \<lparr>name = ''b.gif'', type_f = ''image/gif'', size_f = 8,
     arrayBuffer = [0x47, 0x49, 0x46, 0x38, 0x39, 0x61, 0x01, 0x00]\<rparr>"

definition text_file :: File where
  "text_file =
    \<lparr>name = ''notes.png'', type_f = ''image/png'', size_f = 5,
     arrayBuffer = [0x68, 0x65, 0x6c, 0x6c, 0x6f]\<rparr>"




text \<open>A 12-byte file: RIFF, four length bytes, then \<open>D7 C5 C2 D0\<close>.\<close>

definition fake_webp :: File where
  "fake_webp =
    \<lparr>name = ''fake.webp'', type_f = ''image/webp'', size_f = 12,
     arrayBuffer =
       [0x52, 0x49, 0x46, 0x46, 0x1a, 0x00, 0x00, 0x00, 0xd7, 0xc5, 0xc2, 0xd0]\<rparr>"

text \<open>A RIFF container whose bytes 8 to 11 are \<open>D7 C5 C2 D0\<close>: the letters WEBP with the
  highest bit of every byte set.\<close>

definition riff_high_bits :: "byte list" where
  "riff_high_bits =
    [0x52, 0x49, 0x46, 0x46, 0x1a, 0x00, 0x00, 0x00, 0xd7, 0xc5, 0xc2, 0xd0]"

text \<open>A RIFF container whose bytes 8 to 11 are \<open>57 45 42 D0\<close>: only the last one differs
  from the marker, by its highest bit.\<close>

definition riff_webd0 :: "byte list" where
  "riff_webd0 =
    [0x52, 0x49, 0x46, 0x46, 0x24, 0x08, 0x00, 0x00, 0x57, 0x45, 0x42, 0xd0,
     0x66, 0x6d, 0x74, 0x20]"

text \<open>The start of a WAVE file: RIFF, a length, then the letters WAVE.\<close>

definition riff_wave :: "byte list" where
  "riff_wave =
    [0x52, 0x49, 0x46, 0x46, 0x24, 0x08, 0x00, 0x00, 0x57, 0x41, 0x56, 0x45,
     0x66, 0x6d, 0x74, 0x20]"

section \<open>Size limits\<close>

text \<open>
  C5. For every integer size, \<^verbatim>\<open>validateFileSize(size)\<close> is true exactly when
  \<open>0 < size \<le> 5 * 1024 * 1024\<close>: it is false at 0, false for every negative size, false at
  \<open>5 * 1024 * 1024 + 1\<close> and true at the boundary \<open>5 * 1024 * 1024\<close>.
\<close>

theorem validateFileSize_iff:
  "(validateFileSize s \<longleftrightarrow> 0 < s \<and> s \<le> 5 * 1024 * 1024)
   \<and> \<not> validateFileSize 0
   \<and> (s < 0 \<longrightarrow> \<not> validateFileSize s)
   \<and> \<not> validateFileSize (5 * 1024 * 1024 + 1)
   \<and> validateFileSize (5 * 1024 * 1024)"
  by (simp add: validateFileSize_def MAX_FILE_SIZE_def)

theorem validateFileSize_iff_witness:
  "(- 1 :: int) < 0 \<and> \<not> validateFileSize (- 1) \<and> validateFileSize 1
   \<and> validateFileSize 5242880 \<and> \<not> validateFileSize 5242881"
  using validateFileSize_iff [of "- 1"] validateFileSize_iff [of 1]
    validateFileSize_iff [of 5242880] validateFileSize_iff [of 5242881]
  by simp

text \<open>
  C6. For every integer total, \<^verbatim>\<open>validateTotalSize(total)\<close> is true exactly when
  \<open>total \<le> 20 * 1024 * 1024\<close>. There is no lower bound: the boundary passes, one byte more
  fails, and 0 and everything below it pass.
\<close>

theorem validateTotalSize_iff:
  "(validateTotalSize t \<longleftrightarrow> t \<le> 20 * 1024 * 1024)
   \<and> validateTotalSize (20 * 1024 * 1024)
   \<and> \<not> validateTotalSize (20 * 1024 * 1024 + 1)
   \<and> (t \<le> 0 \<longrightarrow> validateTotalSize t)"
  by (simp add: validateTotalSize_def MAX_TOTAL_SIZE_def)

theorem validateTotalSize_iff_witness:
  "(- 7 :: int) \<le> 0 \<and> validateTotalSize (- 7) \<and> validateTotalSize 0
   \<and> validateTotalSize 20971520 \<and> \<not> validateTotalSize 20971521"
  using validateTotalSize_iff [of "- 7"] validateTotalSize_iff [of 0]
    validateTotalSize_iff [of 20971520] validateTotalSize_iff [of 20971521]
  by simp

section \<open>Signature detection\<close>

subsection \<open>What the loops compute\<close>

lemma buffer_index_Some_iff:
  "buffer_index buffer i = Some b \<longleftrightarrow> i < length buffer \<and> buffer ! i = b"
  by (simp add: buffer_index_def)

lemma signature_every_prefix:
  "signature_every i signature buffer \<longleftrightarrow> prefix signature (drop i buffer)"
proof (induction signature arbitrary: i)
  case Nil
  show ?case by simp
next
  case (Cons b signature)
  show ?case
  proof (cases "i < length buffer")
    case True
    then have "drop i buffer = buffer ! i # drop (Suc i) buffer"
      by (simp add: Cons_nth_drop_Suc)
    with True Cons show ?thesis
      by (auto simp: buffer_index_Some_iff)
  next
    case False
    then show ?thesis by (simp add: buffer_index_Some_iff)
  qed
qed

lemma char_of_unat_byte: "char_of (unat (x :: byte)) = c \<longleftrightarrow> x = of_nat (of_char c)"
proof -
  have lt: "unat x < 256"
    using unsigned_less [of x, where 'a = nat] by simp
  then have "take_bit 8 (unat x) = unat x"
    by (simp add: take_bit_nat_eq_self_iff)
  then have "char_of (unat x) = c \<longleftrightarrow> unat x = of_char c"
    by (simp add: char_of_eq_iff)
  also have "\<dots> \<longleftrightarrow> x = of_nat (of_char c)"
  proof
    assume "unat x = of_char c"
    then have "(of_nat (unat x) :: byte) = of_nat (of_char c)" by simp
    then show "x = of_nat (of_char c)" by simp
  next
    have "(of_char c :: nat) < 256"
      by (metis of_char_mod_256 mod_less_divisor zero_less_numeral)
    moreover assume "x = of_nat (of_char c)"
    ultimately show "unat x = of_char c"
      by (simp add: unsigned_of_nat take_bit_nat_eq_self_iff)
  qed
  finally show ?thesis .
qed

lemma toString_ascii_WEBP:
  "toString_ascii buf = ''WEBP'' \<longleftrightarrow>
     map (\<lambda>b. b AND 0x7F) buf = [0x57, 0x45, 0x42, 0x50]"
  by (simp add: toString_ascii_def map_eq_Cons_conv char_of_unat_byte)

lemma detect_signatures_eq:
  "detect_signatures kind buffer signatures =
    (if (\<exists>signature \<in> set signatures. prefix signature buffer)
        \<and> (kind = ImageWebp \<longrightarrow> webp_marker buffer)
     then Some kind else None)"
proof (induction signatures)
  case Nil
  show ?case by simp
next
  case (Cons signature signatures)
  have len: "prefix signature buffer \<Longrightarrow> length signature \<le> length buffer"
    by (simp add: prefix_length_le)
  show ?case
    using Cons len
    by (auto simp: signature_every_prefix toString_ascii_WEBP webp_marker_def Let_def)
qed

lemma detect_signatures_matches:
  "detect_signatures kind buffer (signatures_of kind) =
     (if matches_kind buffer kind then Some kind else None)"
  by (simp add: detect_signatures_eq matches_kind_def)

lemma signatures_of_map_of:
  "map_of MAGIC_BYTES kind = Some (signatures_of kind)"
  by (cases kind) (simp_all add: signatures_of_def MAGIC_BYTES_def)

lemma detectMimeType_eq:
  "detectMimeType buffer =
     (if matches_kind buffer ImagePng then Some ImagePng
      else if matches_kind buffer ImageJpeg then Some ImageJpeg
      else if matches_kind buffer ImageGif then Some ImageGif
      else if matches_kind buffer ImageWebp then Some ImageWebp
      else None)"
proof -
  have "MAGIC_BYTES = map (\<lambda>kind. (kind, signatures_of kind)) ALLOWED_MIME_TYPES"
    by (simp add: MAGIC_BYTES_def signatures_of_def ALLOWED_MIME_TYPES_def)
  then have "detectMimeType buffer =
      detect_entries buffer (map (\<lambda>kind. (kind, signatures_of kind)) ALLOWED_MIME_TYPES)"
    by (simp only: detectMimeType_def)
  then show ?thesis
    by (simp add: ALLOWED_MIME_TYPES_def detect_signatures_matches)
qed

subsection \<open>The kinds exclude each other\<close>

lemma matches_kind_first_byte:
  assumes "matches_kind buffer kind"
  shows "buffer \<noteq> [] \<and> hd buffer = first_byte kind"
proof -
  from assms obtain signature where
    sig: "signature \<in> set (signatures_of kind)" and pre: "prefix signature buffer"
    by (auto simp: matches_kind_def)
  from sig have "signature \<noteq> [] \<and> hd signature = first_byte kind"
    by (cases kind) (auto simp: signatures_of_def MAGIC_BYTES_def)
  with pre show ?thesis
    by (cases signature; cases buffer) auto
qed

lemma first_byte_inj: "first_byte k = first_byte k' \<longleftrightarrow> k = k'"
  by (cases k; cases k') simp_all

lemma matches_kind_unique:
  "matches_kind buffer k \<Longrightarrow> matches_kind buffer k' \<Longrightarrow> k = k'"
  using matches_kind_first_byte first_byte_inj by metis

text \<open>
  The exact behaviour of \<^verbatim>\<open>detectMimeType\<close>: it returns a kind when a signature of the
  kind is a prefix of the buffer and, for WebP, the marker test of the code passes; it
  returns \<^verbatim>\<open>null\<close> when that holds for no kind.
\<close>

lemma detectMimeType_Some_iff:
  "detectMimeType buffer = Some kind \<longleftrightarrow> matches_kind buffer kind"
proof
  assume "detectMimeType buffer = Some kind"
  then show "matches_kind buffer kind"
    by (simp add: detectMimeType_eq split: if_splits)
next
  assume m: "matches_kind buffer kind"
  then have "\<And>k. matches_kind buffer k \<longleftrightarrow> k = kind"
    using matches_kind_unique by blast
  then show "detectMimeType buffer = Some kind"
    by (cases kind) (simp_all add: detectMimeType_eq)
qed

lemma detectMimeType_None_iff:
  "detectMimeType buffer = None \<longleftrightarrow> (\<forall>kind. \<not> matches_kind buffer kind)"
  by (metis detectMimeType_Some_iff not_Some_eq)


subsection \<open>RIFF containers\<close>

lemma riff_prefix_matches:
  "prefix [0x52, 0x49, 0x46, 0x46] buffer \<Longrightarrow>
     matches_kind buffer ImageWebp \<longleftrightarrow> webp_marker buffer"
  by (simp add: matches_kind_def signatures_of_def MAGIC_BYTES_def)

text \<open>A buffer that starts with RIFF is WebP or nothing, and the marker test decides.\<close>

lemma detectMimeType_riff:
  assumes "prefix [0x52, 0x49, 0x46, 0x46] buffer"
  shows "detectMimeType buffer = (if webp_marker buffer then Some ImageWebp else None)"
proof (cases "webp_marker buffer")
  case True
  with assms show ?thesis
    by (simp add: detectMimeType_Some_iff riff_prefix_matches)
next
  case False
  have "\<not> matches_kind buffer kind" for kind
  proof
    assume m: "matches_kind buffer kind"
    from assms have "buffer \<noteq> [] \<and> hd buffer = 0x52"
      by (cases buffer) auto
    with matches_kind_first_byte [OF m] have "kind = ImageWebp"
      by (cases kind) auto
    with m assms False show False
      by (simp add: riff_prefix_matches)
  qed
  with False show ?thesis
    by (simp add: detectMimeType_None_iff)
qed

lemma detectMimeType_short_not_webp:
  "length buffer < 12 \<Longrightarrow> detectMimeType buffer \<noteq> Some ImageWebp"
  by (simp add: detectMimeType_Some_iff matches_kind_def webp_marker_def)

lemma detectMimeType_riff_only: "detectMimeType [0x52, 0x49, 0x46, 0x46] = None"
  by (simp add: detectMimeType_riff webp_marker_def)

lemma detectMimeType_riff_wave: "detectMimeType riff_wave = None"
  by (simp add: riff_wave_def detectMimeType_riff webp_marker_def slice_def)

text \<open>
  C1. The claim: \<^verbatim>\<open>detectMimeType\<close> returns a kind exactly when the buffer starts with
  one of the signatures of the kind, where for WebP the buffer starts with RIFF and bytes
  8 to 11 equal the ASCII text WEBP; in every other case it returns \<^verbatim>\<open>null\<close>. The
  marker test compares \<^verbatim>\<open>buffer.slice(8, 12).toString("ascii")\<close> with the text, and that
  decoder clears the highest bit of each byte. So the buffer below, whose bytes 8 to 11
  are \<open>D7 C5 C2 D0\<close> and not \<open>57 45 42 50\<close>, is detected as WebP. The behaviour that
  holds for every buffer is \<open>detectMimeType_Some_iff\<close>.
\<close>

theorem detectMimeType_high_bit_marker:
  "detectMimeType riff_high_bits = Some ImageWebp
   \<and> slice riff_high_bits 8 12 = [0xd7, 0xc5, 0xc2, 0xd0]
   \<and> slice riff_high_bits 8 12 \<noteq> [0x57, 0x45, 0x42, 0x50]"
  by code_simp

text \<open>
  C4. The claim: a buffer that starts with RIFF and is shorter than 12 bytes, or does not
  have the ASCII text WEBP at bytes 8 to 11, is never detected as WebP; it yields
  \<^verbatim>\<open>null\<close> when nothing else matches. For short buffers this holds
  (\<open>detectMimeType_short_not_webp\<close>), and a RIFF buffer is never given another kind nor
  an error (\<open>detectMimeType_riff\<close>). The buffer below starts with RIFF and its bytes 8 to
  11 are \<open>57 45 42 D0\<close>, which is not the text WEBP, and it is detected as WebP.
\<close>

theorem detectMimeType_riff_marker_mismatch:
  "prefix [0x52, 0x49, 0x46, 0x46] riff_webd0
   \<and> length riff_webd0 \<ge> 12
   \<and> slice riff_webd0 8 12 \<noteq> [0x57, 0x45, 0x42, 0x50]
   \<and> detectMimeType riff_webd0 = Some ImageWebp"
  by code_simp

section \<open>Validating one file\<close>

lemma validateFile_valid_iff:
  "valid (fst (validateFile file)) \<longleftrightarrow>
     validateFileSize (size_f file) \<and> detectMimeType (arrayBuffer file) \<noteq> None"
  by (auto simp: validateFile_def split: option.splits)

lemma validateFile_mimeType:
  "mimeType (fst (validateFile file)) =
     (if validateFileSize (size_f file) then detectMimeType (arrayBuffer file) else None)"
  by (simp add: validateFile_def split: option.splits)

lemma validateFile_error:
  "error (fst (validateFile file)) =
     (if \<not> validateFileSize (size_f file) then Some (size_exceeded_message file)
      else if detectMimeType (arrayBuffer file) = None then Some (not_image_message file)
      else None)"
  by (simp add: validateFile_def split: option.splits)


subsection \<open>The sample files\<close>

lemma detect_png_file: "detectMimeType (arrayBuffer png_file) = Some ImagePng"
  by (simp add: png_file_def detectMimeType_def MAGIC_BYTES_def buffer_index_def)

lemma detect_gif_file: "detectMimeType (arrayBuffer gif_file) = Some ImageGif"
  by (simp add: gif_file_def detectMimeType_def MAGIC_BYTES_def buffer_index_def)

lemma detect_text_file: "detectMimeType (arrayBuffer text_file) = None"
  by (simp add: text_file_def detectMimeType_def MAGIC_BYTES_def buffer_index_def)

lemma size_ok_png_file: "validateFileSize (size_f png_file)"
  by (simp add: png_file_def validateFileSize_def MAX_FILE_SIZE_def)

lemma size_ok_gif_file: "validateFileSize (size_f gif_file)"
  by (simp add: gif_file_def validateFileSize_def MAX_FILE_SIZE_def)

lemma size_ok_text_file: "validateFileSize (size_f text_file)"
  by (simp add: text_file_def validateFileSize_def MAX_FILE_SIZE_def)

lemma size_bad_big_file: "\<not> validateFileSize (size_f big_file)"
  by (simp add: big_file_def validateFileSize_def MAX_FILE_SIZE_def)

lemma valid_png_file: "valid (fst (validateFile png_file))"
  by (simp add: validateFile_valid_iff detect_png_file size_ok_png_file)

lemma valid_gif_file: "valid (fst (validateFile gif_file))"
  by (simp add: validateFile_valid_iff detect_gif_file size_ok_gif_file)

lemma invalid_text_file: "\<not> valid (fst (validateFile text_file))"
  by (simp add: validateFile_valid_iff detect_text_file)

lemma invalid_big_file: "\<not> valid (fst (validateFile big_file))"
  by (simp add: validateFile_valid_iff size_bad_big_file)


lemma error_big_file:
  \<open>error (fst (validateFile big_file)) = Some ''File "big.png" exceeds maximum size of 5MB''\<close>
  by (simp add: validateFile_error size_bad_big_file size_exceeded_message_def)
    (simp add: big_file_def)

text \<open>
  C3. \<^verbatim>\<open>validateFile\<close> checks the declared size first; when \<^verbatim>\<open>validateFileSize\<close> fails
  it rejects with the size message that names the file, and the content is not read.
  When the size passes it reads the content and runs the detection: no match rejects
  with the message that names the file and the list PNG, JPG, GIF, WebP; a match is
  accepted and carries the detected kind.
\<close>

theorem validateFile_cases:
  \<open>(\<not> validateFileSize (size_f file) \<longrightarrow>
      validateFile file =
        (\<lparr>valid = False,
          error = Some (''File "'' @ name file @ ''" exceeds maximum size of 5MB''),
          mimeType = None\<rparr>, []))
   \<and> (validateFileSize (size_f file) \<and> detectMimeType (arrayBuffer file) = None \<longrightarrow>
      validateFile file =
        (\<lparr>valid = False,
          error = Some (''File "'' @ name file
                        @ ''" is not a valid image (PNG, JPG, GIF, or WebP)''),
          mimeType = None\<rparr>, [file]))
   \<and> (validateFileSize (size_f file) \<and> detectMimeType (arrayBuffer file) = Some kind \<longrightarrow>
      validateFile file = (\<lparr>valid = True, error = None, mimeType = Some kind\<rparr>, [file]))\<close>
  by (simp add: validateFile_def size_exceeded_message_def not_image_message_def)

theorem validateFile_cases_witness:
  \<open>validateFile big_file =
     (\<lparr>valid = False, error = Some ''File "big.png" exceeds maximum size of 5MB'',
       mimeType = None\<rparr>, [])
   \<and> validateFile text_file =
     (\<lparr>valid = False,
       error = Some ''File "notes.png" is not a valid image (PNG, JPG, GIF, or WebP)'',
       mimeType = None\<rparr>, [text_file])
   \<and> validateFile png_file =
     (\<lparr>valid = True, error = None, mimeType = Some ImagePng\<rparr>, [png_file])\<close>
proof -
  have n1: "name big_file = ''big.png''"
    by (simp add: big_file_def)
  have n2: "name text_file = ''notes.png''"
    by (simp add: text_file_def)
  show ?thesis
    using validateFile_cases [of big_file] validateFile_cases [of text_file]
      validateFile_cases [of png_file ImagePng]
      size_bad_big_file size_ok_text_file size_ok_png_file
      detect_png_file detect_text_file n1 n2
    by simp
qed

text \<open>
  The decision never uses the name or the declared media type. Two files with the same
  declared size and the same bytes get the same \<^verbatim>\<open>valid\<close> flag and the same detected
  kind, and with the same name as well the same result altogether, whatever their
  declared types. A file accepted as a kind starts with one of the byte sequences
  \<^verbatim>\<open>MAGIC_BYTES\<close> lists for that kind; for WebP that is the RIFF prefix alone, and the
  marker at offset 8 is the subject of the next theorem.
\<close>

lemma validateFile_ignores_metadata:
  "(size_f f = size_f g \<and> arrayBuffer f = arrayBuffer g \<longrightarrow>
      valid (fst (validateFile f)) = valid (fst (validateFile g))
      \<and> mimeType (fst (validateFile f)) = mimeType (fst (validateFile g))
      \<and> (name f = name g \<longrightarrow> fst (validateFile f) = fst (validateFile g)))
   \<and> (valid (fst (validateFile f)) \<and> mimeType (fst (validateFile f)) = Some kind \<longrightarrow>
      (\<exists>signatures signature.
         map_of MAGIC_BYTES kind = Some signatures \<and> signature \<in> set signatures
         \<and> prefix signature (arrayBuffer f)))"
proof -
  have "fst (validateFile f) = fst (validateFile g)"
    if "size_f f = size_f g" "arrayBuffer f = arrayBuffer g" "name f = name g"
    using that
    by (simp add: validateFile_def size_exceeded_message_def not_image_message_def
        split: option.splits)
  moreover have "\<exists>signatures signature.
         map_of MAGIC_BYTES kind = Some signatures \<and> signature \<in> set signatures
         \<and> prefix signature (arrayBuffer f)"
    if "valid (fst (validateFile f))" "mimeType (fst (validateFile f)) = Some kind"
  proof -
    from that have "detectMimeType (arrayBuffer f) = Some kind"
      by (simp add: validateFile_mimeType split: if_splits)
    then have "matches_kind (arrayBuffer f) kind"
      by (simp add: detectMimeType_Some_iff)
    then obtain signature where "signature \<in> set (signatures_of kind)"
      "prefix signature (arrayBuffer f)"
      by (auto simp: matches_kind_def)
    then show ?thesis
      using signatures_of_map_of by blast
  qed
  ultimately show ?thesis
    by (simp add: validateFile_valid_iff validateFile_mimeType)
qed

lemma validateFile_ignores_metadata_example:
  "valid (fst (validateFile (png_file\<lparr>name := ''run.exe'', type_f := ''application/pdf''\<rparr>)))
   \<and> mimeType (fst (validateFile (png_file\<lparr>name := ''run.exe'', type_f := ''application/pdf''\<rparr>)))
       = Some ImagePng
   \<and> fst (validateFile (text_file\<lparr>type_f := ''text/plain''\<rparr>)) = fst (validateFile text_file)
   \<and> (\<exists>signatures signature.
         map_of MAGIC_BYTES ImagePng = Some signatures \<and> signature \<in> set signatures
         \<and> prefix signature (arrayBuffer png_file))"
proof -
  have kind: "mimeType (fst (validateFile png_file)) = Some ImagePng"
    by (simp add: validateFile_mimeType size_ok_png_file detect_png_file)
  from validateFile_ignores_metadata
    [of png_file "png_file\<lparr>name := ''run.exe'', type_f := ''application/pdf''\<rparr>" ImagePng]
    valid_png_file kind
  have a: "valid (fst (validateFile (png_file\<lparr>name := ''run.exe'', type_f := ''application/pdf''\<rparr>)))"
    and b: "mimeType (fst (validateFile (png_file\<lparr>name := ''run.exe'', type_f := ''application/pdf''\<rparr>)))
       = Some ImagePng"
    and d: "\<exists>signatures signature.
         map_of MAGIC_BYTES ImagePng = Some signatures \<and> signature \<in> set signatures
         \<and> prefix signature (arrayBuffer png_file)"
    by simp_all
  from validateFile_ignores_metadata
    [of "text_file\<lparr>type_f := ''text/plain''\<rparr>" text_file ImagePng]
  have c: "fst (validateFile (text_file\<lparr>type_f := ''text/plain''\<rparr>)) = fst (validateFile text_file)"
    by simp
  from a b c d show ?thesis by (intro conjI)
qed

text \<open>
  C7. The claim: the accept decision never uses the declared name or media type (which
  holds, see \<open>validateFile_ignores_metadata\<close>), and whenever \<^verbatim>\<open>validateFile\<close> accepts a
  file as a kind, the bytes of the file matched one of the signature patterns of the kind
  at the declared offsets; for WebP the pattern is RIFF at offset 0 and the text WEBP at
  offset 8. The file below is accepted as WebP, and its bytes 8 to 11 are
  \<open>D7 C5 C2 D0\<close>, not \<open>57 45 42 50\<close>: the marker is compared after the decoder has
  cleared the highest bit of each byte.
\<close>

theorem validateFile_accepts_high_bit_webp:
  "validateFile fake_webp =
     (\<lparr>valid = True, error = None, mimeType = Some ImageWebp\<rparr>, [fake_webp])
   \<and> slice (arrayBuffer fake_webp) 8 12 = [0xd7, 0xc5, 0xc2, 0xd0]
   \<and> slice (arrayBuffer fake_webp) 8 12 \<noteq> [0x57, 0x45, 0x42, 0x50]"
proof -
  have buf: "arrayBuffer fake_webp = riff_high_bits"
    by (simp add: fake_webp_def riff_high_bits_def)
  have "prefix [0x52, 0x49, 0x46, 0x46] riff_high_bits"
    by (simp add: riff_high_bits_def)
  moreover have "webp_marker riff_high_bits"
    by (simp add: webp_marker_def riff_high_bits_def slice_def)
  ultimately have det: "detectMimeType (arrayBuffer fake_webp) = Some ImageWebp"
    by (simp add: buf detectMimeType_riff)
  have "validateFileSize (size_f fake_webp)"
    by (simp add: fake_webp_def validateFileSize_def MAX_FILE_SIZE_def)
  with det have "validateFile fake_webp =
     (\<lparr>valid = True, error = None, mimeType = Some ImageWebp\<rparr>, [fake_webp])"
    by (simp add: validateFile_def)
  moreover have "slice (arrayBuffer fake_webp) 8 12 = [0xd7, 0xc5, 0xc2, 0xd0]"
    by (simp add: fake_webp_def slice_def)
  ultimately show ?thesis by simp
qed

section \<open>Validating a batch\<close>

lemma foldl_sizes:
  "foldl (\<lambda>sum file. sum + size_f file) a files = a + sum_list (map size_f files)"
  by (induction files arbitrary: a) simp_all

lemma validate_each_Cons:
  "validate_each (file # files) validated reads =
     (if \<not> valid (fst (validateFile file))
      then (as_files_result (fst (validateFile file)), reads @ snd (validateFile file))
      else validate_each files (validated @ [(file, mimeType (fst (validateFile file)))])
             (reads @ snd (validateFile file)))"
  by (simp split: prod.splits)




lemma validate_each_valid:
  "valid (fst (validate_each files validated reads)) \<longleftrightarrow>
     (\<forall>file \<in> set files. valid (fst (validateFile file)))"
proof (induction files arbitrary: validated reads)
  case Nil
  show ?case by simp
next
  case (Cons f fs)
  then show ?case
    by (simp add: validate_each_Cons as_files_result_def del: validate_each.simps(2))
qed

text \<open>A rejection that comes out of the loop is the rejection of one of the files.\<close>

lemma validate_each_error:
  "validate_each files validated reads = (r, reads') \<Longrightarrow> \<not> valid r \<Longrightarrow>
     \<exists>file \<in> set files. \<not> valid (fst (validateFile file))
        \<and> r = as_files_result (fst (validateFile file))"
proof (induction files arbitrary: validated reads)
  case Nil
  then show ?case by auto
next
  case (Cons f fs)
  show ?case
  proof (cases "valid (fst (validateFile f))")
    case True
    with Cons.prems
    have "validate_each fs (validated @ [(f, mimeType (fst (validateFile f)))])
             (reads @ snd (validateFile f)) = (r, reads')"
      by (simp add: validate_each_Cons del: validate_each.simps(2))
    from Cons.IH [OF this Cons.prems(2)] show ?thesis by auto
  next
    case False
    with Cons.prems show ?thesis
      by (simp add: validate_each_Cons del: validate_each.simps(2))
  qed
qed

lemma validateFiles_eq:
  "validateFiles files =
     (if files = [] then
        (\<lparr>valid = True, error = None, mimeType = None, validatedFiles = Some []\<rparr>, [])
      else if MAX_TOTAL_SIZE < sum_list (map size_f files) then
        (\<lparr>valid = False, error = Some total_size_message, mimeType = None,
          validatedFiles = None\<rparr>, [])
      else validate_each files [] [])"
  by (simp add: validateFiles_def foldl_sizes validateTotalSize_def Let_def)

lemma valid_png_gif: "valid (fst (validateFiles [png_file, gif_file]))"
proof -
  have "\<not> MAX_TOTAL_SIZE < sum_list (map size_f [png_file, gif_file])"
    by (simp add: png_file_def gif_file_def MAX_TOTAL_SIZE_def)
  then have run: "validateFiles [png_file, gif_file] = validate_each [png_file, gif_file] [] []"
    by (simp add: validateFiles_eq)
  show ?thesis
    unfolding run validate_each_valid by (simp add: valid_png_file valid_gif_file)
qed

lemma invalid_png_text: "\<not> valid (fst (validateFiles [png_file, text_file]))"
proof -
  have "\<not> MAX_TOTAL_SIZE < sum_list (map size_f [png_file, text_file])"
    by (simp add: png_file_def text_file_def MAX_TOTAL_SIZE_def)
  then have run: "validateFiles [png_file, text_file] = validate_each [png_file, text_file] [] []"
    by (simp add: validateFiles_eq)
  show ?thesis
    unfolding run validate_each_valid by (simp add: invalid_text_file)
qed





section \<open>Rejections and the shape of results\<close>

subsection \<open>Each message and its cause\<close>















text \<open>
  C10. Every result is well formed. From \<^verbatim>\<open>validateFile\<close>: a valid result has no error
  message and carries a kind, a result that is not valid has an error message and no
  kind. From \<^verbatim>\<open>validateFiles\<close>: a valid result has no error message and carries the
  list of validated files, a result that is not valid has an error message, no kind and
  no list, so a batch rejected for one file exposes nothing of the files accepted
  before it.
\<close>

theorem results_well_formed:
  "(valid (fst (validateFile file)) \<longrightarrow>
      error (fst (validateFile file)) = None \<and> mimeType (fst (validateFile file)) \<noteq> None)
   \<and> (\<not> valid (fst (validateFile file)) \<longrightarrow>
      error (fst (validateFile file)) \<noteq> None \<and> mimeType (fst (validateFile file)) = None)
   \<and> (valid (fst (validateFiles files)) \<longrightarrow>
      error (fst (validateFiles files)) = None
      \<and> validatedFiles (fst (validateFiles files)) \<noteq> None)
   \<and> (\<not> valid (fst (validateFiles files)) \<longrightarrow>
      error (fst (validateFiles files)) \<noteq> None
      \<and> mimeType (fst (validateFiles files)) = None
      \<and> validatedFiles (fst (validateFiles files)) = None)"
proof -
  have one: "(valid (fst (validateFile f)) \<longrightarrow>
      error (fst (validateFile f)) = None \<and> mimeType (fst (validateFile f)) \<noteq> None)
   \<and> (\<not> valid (fst (validateFile f)) \<longrightarrow>
      error (fst (validateFile f)) \<noteq> None \<and> mimeType (fst (validateFile f)) = None)" for f
    by (simp add: validateFile_def split: option.splits)
  have loop: "(valid r \<longrightarrow> error r = None \<and> validatedFiles r \<noteq> None)
     \<and> (\<not> valid r \<longrightarrow> error r \<noteq> None \<and> mimeType r = None \<and> validatedFiles r = None)"
    if "validate_each fs validated reads = (r, reads')" for fs validated reads r reads'
    using that
  proof (induction fs arbitrary: validated reads)
    case Nil
    then show ?case by auto
  next
    case (Cons f fs)
    show ?case
    proof (cases "valid (fst (validateFile f))")
      case True
      with Cons.prems
      have "validate_each fs (validated @ [(f, mimeType (fst (validateFile f)))])
             (reads @ snd (validateFile f)) = (r, reads')"
        by (simp add: validate_each_Cons del: validate_each.simps(2))
      then show ?thesis by (rule Cons.IH)
    next
      case False
      with Cons.prems have "r = as_files_result (fst (validateFile f))"
        by (simp add: validate_each_Cons del: validate_each.simps(2))
      with False one [of f] show ?thesis
        by (simp add: as_files_result_def)
    qed
  qed
  obtain r reads where res: "validate_each files [] [] = (r, reads)"
    by (cases "validate_each files [] []")
  have many: "(valid (fst (validateFiles files)) \<longrightarrow>
      error (fst (validateFiles files)) = None
      \<and> validatedFiles (fst (validateFiles files)) \<noteq> None)
   \<and> (\<not> valid (fst (validateFiles files)) \<longrightarrow>
      error (fst (validateFiles files)) \<noteq> None
      \<and> mimeType (fst (validateFiles files)) = None
      \<and> validatedFiles (fst (validateFiles files)) = None)"
    using loop [OF res] by (simp add: validateFiles_eq res)
  from one [of "file"] many show ?thesis by simp
qed

theorem results_well_formed_witness:
  "valid (fst (validateFile png_file))
   \<and> error (fst (validateFile png_file)) = None
   \<and> mimeType (fst (validateFile png_file)) \<noteq> None
   \<and> error (fst (validateFile text_file)) \<noteq> None
   \<and> mimeType (fst (validateFile text_file)) = None
   \<and> error (fst (validateFiles [png_file, gif_file])) = None
   \<and> validatedFiles (fst (validateFiles [png_file, gif_file])) \<noteq> None
   \<and> error (fst (validateFiles [png_file, text_file])) \<noteq> None
   \<and> mimeType (fst (validateFiles [png_file, text_file])) = None
   \<and> validatedFiles (fst (validateFiles [png_file, text_file])) = None"
  using results_well_formed [of png_file "[png_file, gif_file]"]
    results_well_formed [of text_file "[png_file, text_file]"]
    valid_png_file invalid_text_file valid_png_gif invalid_png_text
  by blast

end
